theory Spec2Isabelle
  imports Main "HOL-Library.Word"
begin

unbundle bit_operations_syntax

section \<open>Register descriptors and the register table\<close>

text \<open>
  The register layer of \<^verbatim>\<open>loragw_fpga_reg.c\<close>. C's \<^verbatim>\<open>uint8_t\<close>, \<^verbatim>\<open>uint16_t\<close> and
  \<^verbatim>\<open>int32_t\<close> are words of that width; a signed quantity is a word read with
  \<^const>\<open>sint\<close>. Where C promotes a byte to \<^verbatim>\<open>int\<close> before it shifts, the model
  widens to a 32-bit word, shifts there and truncates on the assignment.
\<close>

type_synonym u8 = "8 word"
type_synonym u16 = "16 word"
type_synonym u32 = "32 word"
type_synonym s32 = "32 word"

text \<open>\<^verbatim>\<open>struct lgw_reg_s\<close>, field by field.\<close>

record lgw_reg_s =
  page :: "8 word"
  addr :: u8
  offs :: u8
  sign :: bool
  leng :: u8
  rdon :: bool
  dflt :: s32

definition mk_reg :: "8 word \<Rightarrow> u8 \<Rightarrow> u8 \<Rightarrow> bool \<Rightarrow> u8 \<Rightarrow> bool \<Rightarrow> s32 \<Rightarrow> lgw_reg_s" where
  "mk_reg p a off sg len ro d =
     \<lparr>page = p, addr = a, offs = off, sign = sg, leng = len, rdon = ro, dflt = d\<rparr>"

text \<open>
  The table \<^verbatim>\<open>fpga_regs\<close> of the source, in its order: SOFT_RESET, VERSION,
  FPGA_STATUS, FPGA_CTRL, HISTO_RAM_ADDR, HISTO_RAM_DATA, HISTO_TEMPO, HISTO_NB_READ,
  TIMESTAMP, SPI_MUX_CTRL.
\<close>

definition fpga_regs :: "lgw_reg_s list" where
  "fpga_regs =
    [mk_reg (- 1) 0 0 False 1 False 0,
     mk_reg (- 1) 1 0 False 8 True 18,
     mk_reg (- 1) 2 0 False 8 True 0,
     mk_reg (- 1) 3 0 False 8 False 0,
     mk_reg (- 1) 4 0 False 8 False 0,
     mk_reg (- 1) 5 0 False 8 True 0,
     mk_reg (- 1) 6 0 False 16 False 32000,
     mk_reg (- 1) 8 0 False 16 False 1000,
     mk_reg (- 1) 10 0 False 32 True 0,
     mk_reg (- 1) 127 0 False 8 False 0]"

text \<open>
  The header \<^verbatim>\<open>loragw_fpga_reg.h\<close> is not among the sources. Its register
  identifiers index the table, so \<^verbatim>\<open>LGW_FPGA_VERSION\<close> is the position of the entry
  the table comments as VERSION, and \<^verbatim>\<open>LGW_FPGA_TOTALREGS\<close> is the number of entries
  of the table a function is given: every function below takes the table as an
  argument (the source reads the global \<^verbatim>\<open>fpga_regs\<close>), so that a property can be
  stated for every descriptor and then used at \<^const>\<open>fpga_regs\<close>.
\<close>

definition LGW_FPGA_VERSION :: nat where
  "LGW_FPGA_VERSION = 1"

definition FPGA_SPI_MUX_FPGA_REG :: u8 where
  "FPGA_SPI_MUX_FPGA_REG = 0x01"

definition FPGA_SPI_MUX_SX1272 :: u8 where
  "FPGA_SPI_MUX_SX1272 = 0x03"

section \<open>The byte transport\<close>

text \<open>
  Modelled from the spec: the byte transport \<^verbatim>\<open>lgw_fpga_spi_open\<close>,
  \<^verbatim>\<open>lgw_fpga_spi_close\<close>, \<^verbatim>\<open>lgw_fpga_spi_r\<close>, \<^verbatim>\<open>lgw_fpga_spi_w\<close>,
  \<^verbatim>\<open>lgw_fpga_spi_rb\<close> and \<^verbatim>\<open>lgw_fpga_spi_wb\<close>, whose file and header are not
  among the sources. The spec gives the interface (open yields a handle or an error,
  a read yields a byte or an error, a write yields an error or none) and says that a
  multi-byte register has its least-significant byte at the lowest address. The
  model is a register file that keeps the byte last written at each (mux, address),
  a log of every call made to the transport, and a fault schedule: the call number
  \<open>n\<close> fails when \<open>faulty n\<close>, and a call with a null handle fails. A call that fails
  transfers nothing. The void pointer \<^verbatim>\<open>spi_target\<close> of the register layer is a
  \<open>handle option\<close>, \<open>None\<close> for \<^verbatim>\<open>NULL\<close>.
\<close>

type_synonym handle = nat

datatype spi_call =
    SpiOpen
  | SpiClose "handle option"
  | SpiR "handle option" u8 u8
  | SpiW "handle option" u8 u8 u8
  | SpiRB "handle option" u8 u8 nat
  | SpiWB "handle option" u8 u8 "u8 list"

record world =
  spi_target :: "handle option"
  regfile :: "u8 \<times> u8 \<Rightarrow> u8"
  calls :: "spi_call list"
  faulty :: "nat \<Rightarrow> bool"

definition LGW_SPI_SUCCESS :: int where
  "LGW_SPI_SUCCESS = 0"

definition LGW_SPI_ERROR :: int where
  "LGW_SPI_ERROR = - 1"

definition spi_fails :: "world \<Rightarrow> handle option \<Rightarrow> bool" where
  "spi_fails w h = (h = None \<or> faulty w (length (calls w)))"

definition logged :: "world \<Rightarrow> spi_call \<Rightarrow> world" where
  "logged w c = w\<lparr>calls := calls w @ [c]\<rparr>"

text \<open>
  Modelled from the spec: \<^verbatim>\<open>lgw_fpga_spi_open(&spi_target)\<close>. On success the new
  handle is stored through the pointer; on failure the pointer's target is left as
  it was.
\<close>

definition lgw_fpga_spi_open :: "world \<Rightarrow> int \<times> world" where
  "lgw_fpga_spi_open w =
     (if faulty w (length (calls w)) then (LGW_SPI_ERROR, logged w SpiOpen)
      else (LGW_SPI_SUCCESS, (logged w SpiOpen)\<lparr>spi_target := Some (length (calls w))\<rparr>))"

text \<open>Modelled from the spec: \<^verbatim>\<open>lgw_fpga_spi_close(spi_target)\<close>.\<close>

definition lgw_fpga_spi_close :: "world \<Rightarrow> handle option \<Rightarrow> int \<times> world" where
  "lgw_fpga_spi_close w h =
     (if spi_fails w h then (LGW_SPI_ERROR, logged w (SpiClose h))
      else (LGW_SPI_SUCCESS, logged w (SpiClose h)))"

text \<open>
  Modelled from the spec: \<^verbatim>\<open>lgw_fpga_spi_r(target, mux, address, &data)\<close>. The second
  component is the byte stored through \<^verbatim>\<open>data\<close>, \<open>None\<close> when nothing is stored.
\<close>

definition lgw_fpga_spi_r :: "world \<Rightarrow> handle option \<Rightarrow> u8 \<Rightarrow> u8 \<Rightarrow> int \<times> u8 option \<times> world" where
  "lgw_fpga_spi_r w h mux a =
     (if spi_fails w h then (LGW_SPI_ERROR, None, logged w (SpiR h mux a))
      else (LGW_SPI_SUCCESS, Some (regfile w (mux, a)), logged w (SpiR h mux a)))"

text \<open>Modelled from the spec: \<^verbatim>\<open>lgw_fpga_spi_w(target, mux, address, data)\<close>.\<close>

definition lgw_fpga_spi_w :: "world \<Rightarrow> handle option \<Rightarrow> u8 \<Rightarrow> u8 \<Rightarrow> u8 \<Rightarrow> int \<times> world" where
  "lgw_fpga_spi_w w h mux a b =
     (if spi_fails w h then (LGW_SPI_ERROR, logged w (SpiW h mux a b))
      else (LGW_SPI_SUCCESS, (logged w (SpiW h mux a b))\<lparr>regfile := (regfile w)((mux, a) := b)\<rparr>))"

text \<open>A burst moves consecutive bytes, the first at the given address.\<close>

fun store_burst :: "(u8 \<times> u8 \<Rightarrow> u8) \<Rightarrow> u8 \<Rightarrow> u8 \<Rightarrow> u8 list \<Rightarrow> (u8 \<times> u8 \<Rightarrow> u8)" where
  "store_burst m mux a [] = m"
| "store_burst m mux a (b # bs) = store_burst (m((mux, a) := b)) mux (a + 1) bs"

fun load_burst :: "(u8 \<times> u8 \<Rightarrow> u8) \<Rightarrow> u8 \<Rightarrow> u8 \<Rightarrow> nat \<Rightarrow> u8 list" where
  "load_burst m mux a 0 = []"
| "load_burst m mux a (Suc n) = m (mux, a) # load_burst m mux (a + 1) n"

text \<open>
  Modelled from the spec: \<^verbatim>\<open>lgw_fpga_spi_rb(target, mux, address, data, size)\<close>. The
  second component is the bytes stored into \<^verbatim>\<open>data\<close>.
\<close>

definition lgw_fpga_spi_rb :: "world \<Rightarrow> handle option \<Rightarrow> u8 \<Rightarrow> u8 \<Rightarrow> nat \<Rightarrow> int \<times> u8 list option \<times> world" where
  "lgw_fpga_spi_rb w h mux a n =
     (if spi_fails w h then (LGW_SPI_ERROR, None, logged w (SpiRB h mux a n))
      else (LGW_SPI_SUCCESS, Some (load_burst (regfile w) mux a n), logged w (SpiRB h mux a n)))"

text \<open>Modelled from the spec: \<^verbatim>\<open>lgw_fpga_spi_wb(target, mux, address, data, size)\<close>.\<close>

definition lgw_fpga_spi_wb :: "world \<Rightarrow> handle option \<Rightarrow> u8 \<Rightarrow> u8 \<Rightarrow> u8 list \<Rightarrow> int \<times> world" where
  "lgw_fpga_spi_wb w h mux a bs =
     (if spi_fails w h then (LGW_SPI_ERROR, logged w (SpiWB h mux a bs))
      else (LGW_SPI_SUCCESS,
            (logged w (SpiWB h mux a bs))\<lparr>regfile := store_burst (regfile w) mux a bs\<rparr>))"

section \<open>Results of the register layer\<close>

text \<open>
  Every function of the layer returns \<^verbatim>\<open>LGW_REG_SUCCESS\<close> or \<^verbatim>\<open>LGW_REG_ERROR\<close>. The
  model keeps which \<^verbatim>\<open>return LGW_REG_ERROR\<close> was taken, named after the spec's error
  kinds (\<open>NullPointer\<close> is the \<^verbatim>\<open>CHECK_NULL\<close> macro), and \<open>ret_code\<close> is the integer
  the C caller receives.
\<close>

datatype reg_error =
    NullPointer
  | InvalidRegisterId
  | NotConnected
  | ReadOnlyViolation
  | UnsupportedGeometry
  | TransportError
  | EmptyBuffer
  | DeviceAbsent
  | VersionMismatch
  | AlreadyDisconnected

datatype reg_result = Success | Error reg_error

definition LGW_REG_SUCCESS :: int where
  "LGW_REG_SUCCESS = 0"

definition LGW_REG_ERROR :: int where
  "LGW_REG_ERROR = - 1"

fun ret_code :: "reg_result \<Rightarrow> int" where
  "ret_code Success = LGW_REG_SUCCESS"
| "ret_code (Error e) = LGW_REG_ERROR"

text \<open>The closing test of \<^verbatim>\<open>spi_stat\<close> shared by the register functions.\<close>

definition spi_stat_result :: "int \<Rightarrow> reg_result" where
  "spi_stat_result spi_stat =
     (if spi_stat \<noteq> LGW_SPI_SUCCESS then Error TransportError else Success)"

section \<open>Connecting and disconnecting\<close>

definition lgw_fpga_connect :: "lgw_reg_s list \<Rightarrow> world \<Rightarrow> reg_result \<times> world" where
  "lgw_fpga_connect regs w =
     (let w0 = (if spi_target w \<noteq> None then snd (lgw_fpga_spi_close w (spi_target w)) else w);
          (spi_stat, w1) = lgw_fpga_spi_open w0
      in if spi_stat \<noteq> LGW_SPI_SUCCESS then (Error TransportError, w1)
         else
           let (spi_stat, got, w2) =
                 lgw_fpga_spi_r w1 (spi_target w1) FPGA_SPI_MUX_FPGA_REG
                   (addr (regs ! LGW_FPGA_VERSION));
               u = (case got of None \<Rightarrow> (0 :: u8) | Some b \<Rightarrow> b)
           in if spi_stat \<noteq> LGW_SPI_SUCCESS then (Error TransportError, w2)
              else if u = 0 \<or> u = 255 then (Error DeviceAbsent, w2)
              else if uint u \<noteq> sint (dflt (regs ! LGW_FPGA_VERSION)) then (Error VersionMismatch, w2)
              else (Success, w2))"

definition lgw_fpga_disconnect :: "world \<Rightarrow> reg_result \<times> world" where
  "lgw_fpga_disconnect w =
     (if spi_target w \<noteq> None
      then (Success, (snd (lgw_fpga_spi_close w (spi_target w)))\<lparr>spi_target := None\<rparr>)
      else (Error AlreadyDisconnected, w))"

section \<open>Writing a register\<close>

text \<open>
  The loop that fills \<^verbatim>\<open>buf\<close> with the bytes of \<^verbatim>\<open>reg_value\<close>;
  \<^verbatim>\<open>reg_value >> 8\<close> on an \<^verbatim>\<open>int32_t\<close> is the arithmetic shift. The array
  \<^verbatim>\<open>buf\<close> has four bytes, all zero at first, and the loop writes at most four.
\<close>

function w_loop :: "nat \<Rightarrow> nat \<Rightarrow> u8 list \<Rightarrow> s32 \<Rightarrow> u8 list" where
  "w_loop i size_byte buf reg_value =
     (if i < size_byte
      then w_loop (i + 1) size_byte (buf[i := ucast (0x000000FF AND reg_value)])
             (signed_drop_bit 8 reg_value)
      else buf)"
  by pat_completeness auto
termination
  by (relation "measure (\<lambda>(i, size_byte, buf, reg_value). size_byte - i)") auto

declare w_loop.simps [simp del]

text \<open>
  In the read-modify-write branch \<open>buf0\<close> to \<open>buf3\<close> are \<^verbatim>\<open>buf[0]\<close> to \<^verbatim>\<open>buf[3]\<close>.
  The mask and the shifted data are computed on 32 bits and truncated by the
  assignment to a byte; the mixing of \<^verbatim>\<open>buf[3]\<close> is bitwise, so that computing it on
  bytes gives the byte C obtains by truncating. A read that fails stores nothing, and
  \<^verbatim>\<open>buf[0]\<close> keeps its initial 0; the write is issued all the same, as in the source.
\<close>

definition lgw_fpga_reg_w :: "lgw_reg_s list \<Rightarrow> world \<Rightarrow> u16 \<Rightarrow> s32 \<Rightarrow> reg_result \<times> world" where
  "lgw_fpga_reg_w regs w register_id reg_value =
     (if unat register_id \<ge> length regs then (Error InvalidRegisterId, w)
      else if spi_target w = None then (Error NotConnected, w)
      else
        let r = regs ! unat register_id in
        if rdon r then (Error ReadOnlyViolation, w)
        else if leng r = 8 \<and> offs r = 0 then
          let (s, w1) = lgw_fpga_spi_w w (spi_target w) FPGA_SPI_MUX_FPGA_REG (addr r)
                          (ucast reg_value)
          in (spi_stat_result s, w1)
        else if unat (offs r) + unat (leng r) \<le> 8 then
          let (s1, got, w1) = lgw_fpga_spi_r w (spi_target w) FPGA_SPI_MUX_FPGA_REG (addr r);
              buf0 = (case got of None \<Rightarrow> (0 :: u8) | Some b \<Rightarrow> b);
              buf1 = (ucast (push_bit (unat (offs r))
                        (push_bit (unat (leng r)) (1 :: u32) - 1)) :: u8);
              buf2 = (ucast (push_bit (unat (offs r))
                        (ucast (ucast reg_value :: u8) :: u32)) :: u8);
              buf3 = (NOT buf1 AND buf0) OR (buf1 AND buf2);
              (s2, w2) = lgw_fpga_spi_w w1 (spi_target w1) FPGA_SPI_MUX_FPGA_REG (addr r) buf3
          in (spi_stat_result (s1 + s2), w2)
        else if offs r = 0 \<and> leng r > 0 \<and> leng r \<le> 32 then
          let size_byte = (unat (leng r) + 7) div 8;
              buf = w_loop 0 size_byte [0, 0, 0, 0] reg_value;
              (s, w1) = lgw_fpga_spi_wb w (spi_target w) FPGA_SPI_MUX_FPGA_REG (addr r)
                          (take size_byte buf)
          in (spi_stat_result s, w1)
        else (Error UnsupportedGeometry, w))"

section \<open>Reading a register\<close>

text \<open>The loop that assembles \<^verbatim>\<open>u\<close> from \<^verbatim>\<open>bufu\<close>, most significant byte first.\<close>

function r_loop :: "int \<Rightarrow> u8 list \<Rightarrow> u32 \<Rightarrow> u32" where
  "r_loop i bufu u =
     (if i \<ge> 0 then r_loop (i - 1) bufu (ucast (bufu ! nat i) + push_bit 8 u) else u)"
  by pat_completeness auto
termination
  by (relation "measure (\<lambda>(i, bufu, u). nat (i + 1))") auto

declare r_loop.simps [simp del]

text \<open>
  The caller's \<^verbatim>\<open>int32_t *reg_value\<close> is \<open>None\<close> for a null pointer and \<open>Some x\<close> for
  a cell that holds \<open>x\<close>; the second component of the result is the cell after the
  call.
\<close>

definition lgw_fpga_reg_r :: "lgw_reg_s list \<Rightarrow> world \<Rightarrow> u16 \<Rightarrow> s32 option \<Rightarrow> reg_result \<times> s32 option \<times> world" where
  "lgw_fpga_reg_r regs w register_id reg_value =
     (if reg_value = None then (Error NullPointer, reg_value, w)
      else if unat register_id \<ge> length regs then (Error InvalidRegisterId, reg_value, w)
      else if spi_target w = None then (Error NotConnected, reg_value, w)
      else
        let r = regs ! unat register_id in
        if unat (offs r) + unat (leng r) \<le> 8 then
          let (s, got, w1) = lgw_fpga_spi_r w (spi_target w) FPGA_SPI_MUX_FPGA_REG (addr r);
              bufu0 = (case got of None \<Rightarrow> (0 :: u8) | Some b \<Rightarrow> b);
              bufu1 = (ucast (push_bit (8 - unat (leng r) - unat (offs r))
                         (ucast bufu0 :: u32)) :: u8);
              v = (if sign r
                   then (let bufs2 = (ucast (signed_drop_bit (8 - unat (leng r))
                                        (scast bufu1 :: s32)) :: u8)
                         in (scast bufs2 :: s32))
                   else (let bufu2 = (ucast (drop_bit (8 - unat (leng r))
                                        (ucast bufu1 :: u32)) :: u8)
                         in (ucast bufu2 :: s32)))
          in (spi_stat_result s, Some v, w1)
        else if offs r = 0 \<and> leng r > 0 \<and> leng r \<le> 32 then
          let size_byte = (unat (leng r) + 7) div 8;
              (s, got, w1) = lgw_fpga_spi_rb w (spi_target w) FPGA_SPI_MUX_FPGA_REG (addr r)
                               size_byte;
              bufu = (case got of None \<Rightarrow> [0, 0, 0, 0]
                      | Some bs \<Rightarrow> bs @ drop (length bs) [0, 0, 0, 0]);
              u = r_loop (int size_byte - 1) bufu 0;
              v = (if sign r
                   then signed_drop_bit (32 - unat (leng r)) (push_bit (32 - unat (leng r)) u)
                   else u)
          in (spi_stat_result s, Some v, w1)
        else (Error UnsupportedGeometry, reg_value, w))"

section \<open>Burst access\<close>

text \<open>
  \<^verbatim>\<open>data\<close> is \<open>None\<close> for a null pointer, else the caller's buffer, of which the
  transport is given the first \<^verbatim>\<open>size\<close> bytes (\<open>size_b\<close> below).
\<close>

definition lgw_fpga_reg_wb :: "lgw_reg_s list \<Rightarrow> world \<Rightarrow> u16 \<Rightarrow> u8 list option \<Rightarrow> u16 \<Rightarrow> reg_result \<times> world" where
  "lgw_fpga_reg_wb regs w register_id data size_b =
     (case data of
        None \<Rightarrow> (Error NullPointer, w)
      | Some bytes \<Rightarrow>
          if size_b = 0 then (Error EmptyBuffer, w)
          else if unat register_id \<ge> length regs then (Error InvalidRegisterId, w)
          else if spi_target w = None then (Error NotConnected, w)
          else
            let r = regs ! unat register_id in
            if rdon r then (Error ReadOnlyViolation, w)
            else
              let (s, w1) = lgw_fpga_spi_wb w (spi_target w) FPGA_SPI_MUX_FPGA_REG (addr r)
                              (take (unat size_b) bytes)
              in (spi_stat_result s, w1))"

text \<open>The second component is the caller's buffer after the call.\<close>

definition lgw_fpga_reg_rb :: "lgw_reg_s list \<Rightarrow> world \<Rightarrow> u16 \<Rightarrow> u8 list option \<Rightarrow> u16 \<Rightarrow> reg_result \<times> u8 list option \<times> world" where
  "lgw_fpga_reg_rb regs w register_id data size_b =
     (case data of
        None \<Rightarrow> (Error NullPointer, data, w)
      | Some bytes \<Rightarrow>
          if size_b = 0 then (Error EmptyBuffer, data, w)
          else if unat register_id \<ge> length regs then (Error InvalidRegisterId, data, w)
          else if spi_target w = None then (Error NotConnected, data, w)
          else
            let r = regs ! unat register_id;
                (s, got, w1) = lgw_fpga_spi_rb w (spi_target w) FPGA_SPI_MUX_FPGA_REG (addr r)
                                 (unat size_b)
            in (spi_stat_result s,
                (case got of None \<Rightarrow> data | Some bs \<Rightarrow> Some (bs @ drop (length bs) bytes)),
                w1))"

section \<open>The SX1272 passthrough\<close>

definition lgw_sx1272_reg_w :: "world \<Rightarrow> u8 \<Rightarrow> u8 \<Rightarrow> int \<times> world" where
  "lgw_sx1272_reg_w w address reg_value =
     lgw_fpga_spi_w w (spi_target w) FPGA_SPI_MUX_SX1272 address reg_value"

definition lgw_sx1272_reg_r :: "world \<Rightarrow> u8 \<Rightarrow> int \<times> u8 option \<times> world" where
  "lgw_sx1272_reg_r w address =
     lgw_fpga_spi_r w (spi_target w) FPGA_SPI_MUX_SX1272 address"

section \<open>Reference notions for the statements\<close>

text \<open>
  What the specification calls splitting a value into bytes and reassembling a word,
  least-significant byte first.
\<close>

definition le_bytes :: "nat \<Rightarrow> s32 \<Rightarrow> u8 list" where
  "le_bytes n v = map (\<lambda>i. ucast (drop_bit (8 * i) v)) [0..<n]"

fun le_word :: "u8 list \<Rightarrow> u32" where
  "le_word [] = 0"
| "le_word (b # bs) = ucast b + push_bit 8 (le_word bs)"


text \<open>The bytes a register file holds for a descriptor, as one word.\<close>

definition stored_word :: "(u8 \<times> u8 \<Rightarrow> u8) \<Rightarrow> lgw_reg_s \<Rightarrow> u32" where
  "stored_word m r =
     (if unat (offs r) + unat (leng r) \<le> 8 then ucast (m (FPGA_SPI_MUX_FPGA_REG, addr r))
      else le_word (load_burst m FPGA_SPI_MUX_FPGA_REG (addr r) ((unat (leng r) + 7) div 8)))"

text \<open>
  Concrete worlds for the instances below: disconnected over a register file of
  zeros, disconnected over a device whose every byte reads 5, connected with a
  working transport, and connected with a transport whose every call fails.
\<close>

definition idle_world :: world where
  "idle_world = \<lparr>spi_target = None, regfile = (\<lambda>_. 0), calls = [], faulty = (\<lambda>_. False)\<rparr>"

definition stranger_world :: world where
  "stranger_world = \<lparr>spi_target = None, regfile = (\<lambda>_. 5), calls = [], faulty = (\<lambda>_. False)\<rparr>"

definition linked_world :: world where
  "linked_world = \<lparr>spi_target = Some 0, regfile = (\<lambda>_. 0), calls = [], faulty = (\<lambda>_. False)\<rparr>"

definition broken_world :: world where
  "broken_world = \<lparr>spi_target = Some 0, regfile = (\<lambda>_. 0), calls = [], faulty = (\<lambda>_. True)\<rparr>"

text \<open>
  Connected worlds whose every byte reads 0xFE, the first with a working transport
  and the second with a transport whose first call fails; and connected worlds whose
  every byte reads 0x20 (the pattern 1000 at bits 2 to 5) and 0x1C (the pattern 0111
  at bits 2 to 5).
\<close>

definition fe_world :: world where
  "fe_world = \<lparr>spi_target = Some 0, regfile = (\<lambda>_. 0xFE), calls = [], faulty = (\<lambda>_. False)\<rparr>"

definition flaky_world :: world where
  "flaky_world = \<lparr>spi_target = Some 0, regfile = (\<lambda>_. 0xFE), calls = [], faulty = (\<lambda>n. n = 0)\<rparr>"

definition minus8_world :: world where
  "minus8_world = \<lparr>spi_target = Some 0, regfile = (\<lambda>_. 0x20), calls = [], faulty = (\<lambda>_. False)\<rparr>"

definition plus7_world :: world where
  "plus7_world = \<lparr>spi_target = Some 0, regfile = (\<lambda>_. 0x1C), calls = [], faulty = (\<lambda>_. False)\<rparr>"

text \<open>
  The source's table has no signed register and no field inside a byte but the
  one-bit SOFT_RESET. A second table, of the geometries the functions support, serves
  the instances: a signed 4-bit field at bit 2 of byte 10, an unsigned 2-bit field at
  bit 0 of the same byte, an unsigned 32-bit register, and an unsigned and a signed
  12-bit register, all writable.
\<close>

definition demo_regs :: "lgw_reg_s list" where
  "demo_regs =
    [mk_reg (- 1) 10 2 True 4 False 0,
     mk_reg (- 1) 10 0 False 2 False 0,
     mk_reg (- 1) 20 0 False 32 False 0,
     mk_reg (- 1) 30 0 False 12 False 0,
     mk_reg (- 1) 40 0 True 12 False 0]"

section \<open>Auxiliary facts\<close>

lemmas spi_defs = lgw_fpga_spi_open_def lgw_fpga_spi_close_def lgw_fpga_spi_r_def
  lgw_fpga_spi_w_def lgw_fpga_spi_rb_def lgw_fpga_spi_wb_def spi_fails_def logged_def
  spi_stat_result_def LGW_SPI_SUCCESS_def LGW_SPI_ERROR_def

lemmas table_defs = fpga_regs_def mk_reg_def LGW_FPGA_VERSION_def

subsection \<open>Decoding a field of one byte\<close>

lemma sub_unsigned:
  fixes b :: u8
  assumes "k + l \<le> 8"
  shows "(ucast (ucast (drop_bit (8 - l)
            (ucast (ucast (push_bit (8 - (l + k)) (ucast b :: u32)) :: u8) :: u32)) :: u8) :: s32)
         = take_bit l (ucast (drop_bit k b))"
  using assms by (intro bit_word_eqI) (auto simp add: bit_simps ac_simps)

lemma sub_signed:
  fixes b :: u8
  assumes "k + l \<le> 8" "1 \<le> l"
  shows "(scast (ucast (signed_drop_bit (8 - l)
            (scast (ucast (push_bit (8 - (l + k)) (ucast b :: u32)) :: u8) :: s32)) :: u8) :: s32)
         = signed_take_bit (l - 1) (ucast (drop_bit k b))"
proof (rule bit_word_eqI)
  fix n :: nat
  assume n: "n < LENGTH(32)"
  have idx: "min 7 (8 + min 7 n - l) + (l + k) - 8 = k + min (l - Suc 0) n"
    using assms by arith
  have side: "min 7 n < 8" "8 + min 7 n - l < 32" "min 7 (8 + min 7 n - l) < 8"
    "8 - (l + k) \<le> 7" "8 - (l + k) \<le> 8 + min 7 n - l" "min 7 (8 + min 7 n - l) < 32"
    "k + min (l - Suc 0) n < 32" "min (l - Suc 0) n < 32"
    using assms n by arith+
  show "bit (scast (ucast (signed_drop_bit (8 - l)
               (scast (ucast (push_bit (8 - (l + k)) (ucast b :: u32)) :: u8) :: s32)) :: u8) :: s32) n
        = bit (signed_take_bit (l - 1) (ucast (drop_bit k b) :: s32)) n"
    using assms n by (simp add: bit_simps idx side)
qed

subsection \<open>The read-modify-write byte\<close>

lemma rmw_new_data:
  "(ucast (push_bit k (ucast (ucast (v :: s32) :: u8) :: u32)) :: u8) = ucast (push_bit k v)"
  by (rule bit_word_eqI) (auto simp add: bit_simps)

lemma rmw_mask:
  "(ucast (push_bit k (2 ^ l - 1 :: u32)) :: u8) = push_bit k (mask l)"
  unfolding mask_eq_exp_minus_1 [symmetric]
  by (rule bit_word_eqI) (auto simp add: bit_simps)

lemma rmw_frame:
  fixes old new_data m :: u8
  shows "\<not> bit m n \<Longrightarrow> bit ((NOT m AND old) OR (m AND new_data)) n = bit old n"
  by (auto simp add: bit_simps dest: bit_imp_le_length)

lemma rmw_field:
  fixes old :: u8
  assumes "k + l \<le> 8" "n < l"
  shows "bit (drop_bit k ((NOT (push_bit k (mask l)) AND old)
            OR (push_bit k (mask l) AND ucast (push_bit k (v :: s32)))) :: u8) n = bit v n"
  using assms by (auto simp add: bit_simps)

subsection \<open>Bytes of a word\<close>

lemma ff_mask: "(0xFF :: s32) = mask 8"
  by (simp add: mask_eq_exp_minus_1)

lemma byte_of_and: "(ucast (0xFF AND v :: s32) :: u8) = ucast v"
  unfolding ff_mask by (rule bit_word_eqI) (auto simp add: bit_simps)

lemma byte_shift1: "(ucast (signed_drop_bit 8 (v :: s32)) :: u8) = ucast (drop_bit 8 v)"
  by (rule bit_word_eqI) (auto simp add: bit_simps)

lemma byte_shift2: "(ucast (signed_drop_bit 16 (v :: s32)) :: u8) = ucast (drop_bit 16 v)"
  by (rule bit_word_eqI) (auto simp add: bit_simps)

lemma byte_shift3: "(ucast (signed_drop_bit 24 (v :: s32)) :: u8) = ucast (drop_bit 24 v)"
  by (rule bit_word_eqI) (auto simp add: bit_simps)

lemma w_loop_2: "w_loop 0 2 [0, 0, 0, 0] v = [ucast v, ucast (drop_bit 8 v), 0, 0]"
  by (simp add: w_loop.simps byte_of_and byte_shift1)

lemma w_loop_3:
  "w_loop 0 3 [0, 0, 0, 0] v = [ucast v, ucast (drop_bit 8 v), ucast (drop_bit 16 v), 0]"
  by (simp add: w_loop.simps byte_of_and byte_shift1 byte_shift2)

lemma w_loop_4:
  "w_loop 0 4 [0, 0, 0, 0] v
     = [ucast v, ucast (drop_bit 8 v), ucast (drop_bit 16 v), ucast (drop_bit 24 v)]"
  by (simp add: w_loop.simps byte_of_and byte_shift1 byte_shift2 byte_shift3)

lemma r_loop_zero:
  "r_loop 1 [0, 0, 0, 0] 0 = 0" "r_loop 2 [0, 0, 0, 0] 0 = 0" "r_loop 3 [0, 0, 0, 0] 0 = 0"
  by (simp_all add: r_loop.simps)

lemma length_load_burst: "length (load_burst m mux a n) = n"
  by (induction n arbitrary: a) simp_all






subsection \<open>Sign extension of a word\<close>

lemma multi_signed:
  assumes "1 \<le> l" "l \<le> 32"
  shows "signed_drop_bit (32 - l) (push_bit (32 - l) (u :: u32)) = signed_take_bit (l - 1) u"
proof (rule bit_word_eqI)
  fix n :: nat
  assume n: "n < LENGTH(32)"
  show "bit (signed_drop_bit (32 - l) (push_bit (32 - l) u)) n
        = bit (signed_take_bit (l - 1) u) n"
  proof (cases "n < l")
    case True
    then have "min (l - 1) n = n" "32 - l + n < 32" "\<not> (l \<le> n)" "32 - l \<le> 32 - l + n"
      using assms by simp_all
    then show ?thesis
      using assms n True by (simp add: bit_simps)
  next
    case False
    then have "min (l - 1) n = l - 1" "l \<le> n" "31 - (32 - l) = l - 1" "32 - l \<le> 31"
      using assms by simp_all
    then show ?thesis
      using assms n False by (simp add: bit_simps)
  qed
qed

lemma sint_signed_take_bit_32:
  assumes "m < 32"
  shows "sint (signed_take_bit m (w :: s32)) = signed_take_bit m (sint w)"
proof (rule bit_eqI)
  fix n :: nat
  have a: "min m (min 31 n) = min m n" "min 31 (min m n) = min m n" "min m n < 32"
    "min 31 n < 32"
    using assms by simp_all
  show "bit (sint (signed_take_bit m w)) n = bit (signed_take_bit m (sint w)) n"
    by (simp add: bit_simps a)
qed

lemma signed_field_range:
  assumes "1 \<le> L" "L \<le> 32"
  shows "- (2 ^ (L - 1)) \<le> sint (signed_take_bit (L - 1) (w :: s32))
       \<and> sint (signed_take_bit (L - 1) w) \<le> 2 ^ (L - 1) - 1"
proof -
  have "L - 1 < 32" using assms by simp
  then have e: "sint (signed_take_bit (L - 1) w) = signed_take_bit (L - 1) (sint w)"
    by (rule sint_signed_take_bit_32)
  have "signed_take_bit (L - 1) (sint w) < 2 ^ (L - 1)"
    by (rule signed_take_bit_int_less_exp)
  moreover have "- (2 ^ (L - 1)) \<le> signed_take_bit (L - 1) (sint w)"
    by (rule signed_take_bit_int_greater_eq_minus_exp)
  ultimately show ?thesis unfolding e by simp
qed

lemma size_byte_cases:
  fixes l :: u8
  assumes "\<not> unat l \<le> 8" "unat l \<le> 32"
  shows "(unat l + 7) div 8 = 2 \<or> (unat l + 7) div 8 = 3 \<or> (unat l + 7) div 8 = 4"
  using assms by arith

lemma leng_word_bounds:
  fixes l :: u8
  assumes "\<not> unat l \<le> 8" "unat l \<le> 32"
  shows "0 < l" "l \<le> 32"
  using assms by (simp_all add: word_greater_zero_iff word_le_nat_alt unat_eq_0 [symmetric])

lemmas demo_defs = demo_regs_def mk_reg_def




lemma ucast_drop_byte: "(ucast (drop_bit k (b :: u8)) :: u32) = drop_bit k (ucast b)"
  by (rule bit_word_eqI) (auto simp add: bit_simps dest: bit_imp_le_length)

subsection \<open>The loops and the bursts on two, three and four bytes\<close>

lemma w_loop_bytes:
  assumes "n = 2 \<or> n = 3 \<or> n = 4"
  shows "take n (w_loop 0 n [0, 0, 0, 0] v) = le_bytes n v"
  using assms
  by (elim disjE) (simp_all add: w_loop_2 w_loop_3 w_loop_4 le_bytes_def upt_rec)

lemma r_loop_assembles:
  assumes "n = 2 \<or> n = 3 \<or> n = 4" "length bs = n"
  shows "r_loop (int n - 1) (bs @ drop n [0, 0, 0, 0]) 0 = le_word bs"
proof -
  from assms consider
      b0 b1 where "n = 2" "bs = [b0, b1]"
    | b0 b1 b2 where "n = 3" "bs = [b0, b1, b2]"
    | b0 b1 b2 b3 where "n = 4" "bs = [b0, b1, b2, b3]"
    by (auto simp add: length_Suc_conv eval_nat_numeral)
  then show ?thesis
    by cases (simp_all add: r_loop.simps)
qed

lemma load_store_burst:
  assumes "n = 2 \<or> n = 3 \<or> n = 4" "length bs = n"
  shows "load_burst (store_burst m mux a bs) mux a n = bs"
proof -
  have two: "(2 :: nat) = Suc (Suc 0)" and three: "(3 :: nat) = Suc (Suc (Suc 0))"
    and four: "(4 :: nat) = Suc (Suc (Suc (Suc 0)))"
    by simp_all
  from assms consider
      b0 b1 where "n = 2" "bs = [b0, b1]"
    | b0 b1 b2 where "n = 3" "bs = [b0, b1, b2]"
    | b0 b1 b2 b3 where "n = 4" "bs = [b0, b1, b2, b3]"
    by (auto simp add: length_Suc_conv eval_nat_numeral)
  then show ?thesis
  proof cases
    case 1 then show ?thesis unfolding \<open>n = 2\<close> two by simp
  next
    case 2 then show ?thesis unfolding \<open>n = 3\<close> three by simp
  next
    case 3 then show ?thesis unfolding \<open>n = 4\<close> four by simp
  qed
qed

lemma length_le_bytes: "length (le_bytes n v) = n"
  by (simp add: le_bytes_def)


subsection \<open>What a read and a write do when the transport works\<close>

lemma world_after_burst:
  "spi_target ((logged w c)\<lparr>regfile := m\<rparr>) = spi_target w"
  "calls ((logged w c)\<lparr>regfile := m\<rparr>) = calls w @ [c]"
  "faulty ((logged w c)\<lparr>regfile := m\<rparr>) = faulty w"
  "regfile ((logged w c)\<lparr>regfile := m\<rparr>) = m"
  by (simp_all add: logged_def)


lemma reg_r_sub:
  assumes "spi_target w = Some h" "unat register_id < length regs"
    and "regs ! unat register_id = r"
    and "unat (offs r) + unat (leng r) \<le> 8" "1 \<le> unat (leng r)"
    and "\<not> faulty w (length (calls w))"
  shows "lgw_fpga_reg_r regs w register_id (Some x) =
    (Success,
     Some ((if sign r then signed_take_bit (unat (leng r) - 1) else take_bit (unat (leng r)))
        (ucast (drop_bit (unat (offs r)) (regfile w (FPGA_SPI_MUX_FPGA_REG, addr r))))),
     logged w (SpiR (Some h) FPGA_SPI_MUX_FPGA_REG (addr r)))"
  using assms
  by (simp add: lgw_fpga_reg_r_def lgw_fpga_spi_r_def spi_fails_def spi_stat_result_def
      LGW_SPI_SUCCESS_def logged_def Let_def sub_signed sub_unsigned)

lemma reg_r_multi:
  assumes "spi_target w = Some h" "unat register_id < length regs"
    and "regs ! unat register_id = r"
    and "offs r = 0" "\<not> unat (leng r) \<le> 8" "unat (leng r) \<le> 32"
    and "\<not> faulty w (length (calls w))"
    and "n = (unat (leng r) + 7) div 8"
  shows "lgw_fpga_reg_r regs w register_id (Some x) =
    (Success,
     Some ((if sign r then signed_take_bit (unat (leng r) - 1) else id)
        (le_word (load_burst (regfile w) FPGA_SPI_MUX_FPGA_REG (addr r) n))),
     logged w (SpiRB (Some h) FPGA_SPI_MUX_FPGA_REG (addr r) n))"
proof -
  note l = leng_word_bounds [OF assms(5,6)]
  have k: "n = 2 \<or> n = 3 \<or> n = 4"
    using size_byte_cases [OF assms(5,6)] assms(8) by simp
  have asm: "r_loop (int n - 1) (load_burst (regfile w) FPGA_SPI_MUX_FPGA_REG (addr r) n
                @ drop n [0, 0, 0, 0]) 0
             = le_word (load_burst (regfile w) FPGA_SPI_MUX_FPGA_REG (addr r) n)"
    using k by (rule r_loop_assembles) (rule length_load_burst)
  have ext: "signed_drop_bit (32 - unat (leng r)) (push_bit (32 - unat (leng r)) u)
      = signed_take_bit (unat (leng r) - 1) u" for u :: u32
    using assms(5,6) by (intro multi_signed) simp_all
  show ?thesis
    using assms(1-5) assms(7) l asm [unfolded assms(8)]
    by (simp add: lgw_fpga_reg_r_def lgw_fpga_spi_rb_def spi_fails_def spi_stat_result_def
        LGW_SPI_SUCCESS_def logged_def Let_def ext assms(8) length_load_burst)
qed



lemma reg_w_burst:
  assumes "spi_target w = Some h" "unat register_id < length regs"
    and "regs ! unat register_id = r" "\<not> rdon r"
    and "offs r = 0" "\<not> unat (leng r) \<le> 8" "unat (leng r) \<le> 32"
    and "\<not> faulty w (length (calls w))"
    and "n = (unat (leng r) + 7) div 8"
  shows "lgw_fpga_reg_w regs w register_id v =
    (Success, (logged w (SpiWB (Some h) FPGA_SPI_MUX_FPGA_REG (addr r) (le_bytes n v)))
       \<lparr>regfile := store_burst (regfile w) FPGA_SPI_MUX_FPGA_REG (addr r) (le_bytes n v)\<rparr>)"
proof -
  note l = leng_word_bounds [OF assms(6,7)]
  have k: "n = 2 \<or> n = 3 \<or> n = 4"
    using size_byte_cases [OF assms(6,7)] assms(9) by simp
  have ne: "leng r \<noteq> 8"
    using assms(6) by auto
  show ?thesis
    using assms(1-6) assms(8) l ne w_loop_bytes [OF k, of v, unfolded assms(9)]
    by (simp add: lgw_fpga_reg_w_def lgw_fpga_spi_wb_def spi_fails_def spi_stat_result_def
        LGW_SPI_SUCCESS_def logged_def Let_def assms(9))
qed

lemma reg_w_burst_calls:
  assumes "spi_target w = Some h" "unat register_id < length regs"
    and "regs ! unat register_id = r" "\<not> rdon r"
    and "offs r = 0" "\<not> unat (leng r) \<le> 8" "unat (leng r) \<le> 32"
    and "n = (unat (leng r) + 7) div 8"
  shows "calls (snd (lgw_fpga_reg_w regs w register_id v))
           = calls w @ [SpiWB (Some h) FPGA_SPI_MUX_FPGA_REG (addr r) (le_bytes n v)]"
proof -
  note l = leng_word_bounds [OF assms(6,7)]
  have k: "n = 2 \<or> n = 3 \<or> n = 4"
    using size_byte_cases [OF assms(6,7)] assms(8) by simp
  have ne: "leng r \<noteq> 8"
    using assms(6) by auto
  show ?thesis
    using assms(1-6) l ne w_loop_bytes [OF k, of v, unfolded assms(8)]
    by (simp add: lgw_fpga_reg_w_def lgw_fpga_spi_wb_def logged_def Let_def assms(8))
qed

section \<open>Write followed by read\<close>





section \<open>Registers of several bytes\<close>

text \<open>
  Claim C2: for every writable descriptor at bit 0 with more than 8 and at most 32
  bits, on a connected device, a write makes exactly one transport call, a burst write
  at the address of the descriptor, of \<open>n\<close> bytes where \<open>n\<close> is the width divided
  by 8 and rounded up, byte \<open>i\<close> being bits \<open>8 i\<close> to \<open>8 i + 7\<close> of the value
  (\<^const>\<open>le_bytes\<close>); and when the transport works, the read that follows
  reassembles those bytes, least-significant first (\<^const>\<open>le_word\<close>), sign-extended for
  a signed descriptor. The instance after it writes 0x12345678 to an unsigned 32-bit
  register: the bytes sent are 0x78, 0x56, 0x34, 0x12, and the read gives 0x12345678.
\<close>

theorem multi_byte_write_little_endian:
  assumes "spi_target w = Some h" "unat register_id < length regs"
    and "regs ! unat register_id = r" "\<not> rdon r"
    and "offs r = 0" "8 < unat (leng r)" "unat (leng r) \<le> 32"
    and "n = (unat (leng r) + 7) div 8"
    and "w1 = snd (lgw_fpga_reg_w regs w register_id reg_value)"
  shows "calls w1 = calls w @ [SpiWB (Some h) FPGA_SPI_MUX_FPGA_REG (addr r) (le_bytes n reg_value)]
       \<and> length (le_bytes n reg_value) = n
       \<and> unat (leng r) \<le> 8 * n \<and> 8 * n < unat (leng r) + 8
       \<and> (\<not> faulty w (length (calls w)) \<and> \<not> faulty w (Suc (length (calls w))) \<longrightarrow>
            fst (snd (lgw_fpga_reg_r regs w1 register_id (Some x)))
              = Some ((if sign r then signed_take_bit (unat (leng r) - 1) else id)
                        (le_word (le_bytes n reg_value))))"
proof -
  have g: "\<not> unat (leng r) \<le> 8"
    using assms(6) by simp
  have k: "n = 2 \<or> n = 3 \<or> n = 4"
    using size_byte_cases [OF g assms(7)] assms(8) by simp
  have c: "calls w1
      = calls w @ [SpiWB (Some h) FPGA_SPI_MUX_FPGA_REG (addr r) (le_bytes n reg_value)]"
    unfolding assms(9) using assms(1-5) g assms(7,8) by (rule reg_w_burst_calls)
  have sz: "unat (leng r) \<le> 8 * n \<and> 8 * n < unat (leng r) + 8"
    unfolding assms(8) by arith
  have rd: "fst (snd (lgw_fpga_reg_r regs w1 register_id (Some x)))
           = Some ((if sign r then signed_take_bit (unat (leng r) - 1) else id)
                     (le_word (le_bytes n reg_value)))"
    if ok: "\<not> faulty w (length (calls w))" "\<not> faulty w (Suc (length (calls w)))"
  proof -
    have w1: "w1 = (logged w
                      (SpiWB (Some h) FPGA_SPI_MUX_FPGA_REG (addr r) (le_bytes n reg_value)))
         \<lparr>regfile := store_burst (regfile w) FPGA_SPI_MUX_FPGA_REG (addr r)
                       (le_bytes n reg_value)\<rparr>"
      unfolding assms(9) reg_w_burst [OF assms(1-5) g assms(7) ok(1) assms(8)] by simp
    have t: "spi_target w1 = Some h" and f: "\<not> faulty w1 (length (calls w1))"
      unfolding w1 world_after_burst using assms(1) ok(2) by simp_all
    have lb: "load_burst (regfile w1) FPGA_SPI_MUX_FPGA_REG (addr r) n = le_bytes n reg_value"
      unfolding w1 world_after_burst using k by (rule load_store_burst) (rule length_le_bytes)
    show ?thesis
      unfolding reg_r_multi [OF t assms(2,3,5) g assms(7) f assms(8)] lb by simp
  qed
  show ?thesis
    using c rd sz length_le_bytes [of n reg_value] by simp
qed

theorem multi_byte_write_little_endian_witness:
  "spi_target linked_world = Some 0 \<and> unat (2 :: u16) < length demo_regs
   \<and> \<not> rdon (demo_regs ! unat (2 :: u16)) \<and> offs (demo_regs ! unat (2 :: u16)) = 0
   \<and> unat (leng (demo_regs ! unat (2 :: u16))) = 32 \<and> \<not> sign (demo_regs ! unat (2 :: u16))
   \<and> \<not> faulty linked_world (length (calls linked_world))
   \<and> \<not> faulty linked_world (Suc (length (calls linked_world)))
   \<and> calls (snd (lgw_fpga_reg_w demo_regs linked_world 2 0x12345678))
       = [SpiWB (Some 0) FPGA_SPI_MUX_FPGA_REG 20 [0x78, 0x56, 0x34, 0x12]]
   \<and> fst (snd (lgw_fpga_reg_r demo_regs (snd (lgw_fpga_reg_w demo_regs linked_world 2 0x12345678))
         2 (Some 0))) = Some 0x12345678"
proof -
  have h: "spi_target linked_world = Some 0" "unat (2 :: u16) < length demo_regs"
    "demo_regs ! unat (2 :: u16) = mk_reg (- 1) 20 0 False 32 False 0"
    "\<not> rdon (mk_reg (- 1) 20 0 False 32 False 0)"
    "offs (mk_reg (- 1) 20 0 False 32 False 0) = 0"
    "8 < unat (leng (mk_reg (- 1) 20 0 False 32 False 0))"
    "unat (leng (mk_reg (- 1) 20 0 False 32 False 0)) \<le> 32"
    "4 = (unat (leng (mk_reg (- 1) 20 0 False 32 False 0)) + 7) div 8"
    by (simp_all add: linked_world_def demo_defs)
  have ok: "\<not> faulty linked_world (length (calls linked_world))"
    "\<not> faulty linked_world (Suc (length (calls linked_world)))"
    by (simp_all add: linked_world_def)
  have le: "le_bytes 4 0x12345678 = [0x78, 0x56, 0x34, 0x12]"
    by (simp add: le_bytes_def upt_rec)
  note t = multi_byte_write_little_endian [where reg_value = "0x12345678" and x = 0, OF h refl]
  have c: "calls (snd (lgw_fpga_reg_w demo_regs linked_world 2 0x12345678))
       = [SpiWB (Some 0) FPGA_SPI_MUX_FPGA_REG 20 [0x78, 0x56, 0x34, 0x12]]"
    using t [THEN conjunct1] by (simp add: le linked_world_def mk_reg_def)
  have r: "fst (snd (lgw_fpga_reg_r demo_regs
                 (snd (lgw_fpga_reg_w demo_regs linked_world 2 0x12345678)) 2 (Some 0)))
           = Some 0x12345678"
    using t [THEN conjunct2, THEN conjunct2, THEN conjunct2, THEN conjunct2] ok
    by (simp add: le mk_reg_def)
  show ?thesis
    using h(1,2) ok c r by (simp add: demo_defs)
qed

section \<open>Fields inside one byte\<close>

text \<open>
  Claim C3, as stated, fails when the transport read of the byte fails: the write is
  issued all the same, computed from the zero the local buffer still holds. On the
  source's table, SOFT_RESET is the 1-bit field at bit 0 of byte 0. With 0xFE at that
  address and a transport whose first call fails, a write of 1 returns
  \<open>TransportError\<close> and has written 0x01, where the byte of the claim is 0xFF: the
  seven bits outside the mask are not those of the old byte.
\<close>

theorem rmw_read_failure_clobbers_siblings:
  "spi_target flaky_world = Some 0
   \<and> rdon (fpga_regs ! 0) = False \<and> offs (fpga_regs ! 0) = 0 \<and> leng (fpga_regs ! 0) = 1
   \<and> addr (fpga_regs ! 0) = 0
   \<and> regfile flaky_world (FPGA_SPI_MUX_FPGA_REG, 0) = 0xFE
   \<and> lgw_fpga_spi_r flaky_world (Some 0) FPGA_SPI_MUX_FPGA_REG 0
       = (LGW_SPI_ERROR, None, logged flaky_world (SpiR (Some 0) FPGA_SPI_MUX_FPGA_REG 0))
   \<and> fst (lgw_fpga_reg_w fpga_regs flaky_world 0 1) = Error TransportError
   \<and> calls (snd (lgw_fpga_reg_w fpga_regs flaky_world 0 1))
       = [SpiR (Some 0) FPGA_SPI_MUX_FPGA_REG 0, SpiW (Some 0) FPGA_SPI_MUX_FPGA_REG 0 0x01]
   \<and> regfile (snd (lgw_fpga_reg_w fpga_regs flaky_world 0 1)) (FPGA_SPI_MUX_FPGA_REG, 0) = 0x01
   \<and> ((0xFE AND NOT 0x01) OR (0x01 AND 0x01) :: u8) = 0xFF"
  by (simp add: lgw_fpga_reg_w_def flaky_world_def spi_defs table_defs Let_def)

text \<open>
  Claim C3, amended: for every writable descriptor whose field lies inside one byte,
  other than the whole byte at bit 0, on a connected device, a write of any 32-bit
  value makes two transport calls, the read of the byte and the write of
  \<open>(b AND NOT mask) OR ((value << bitOffset) AND mask)\<close> to the same address, with
  \<open>mask = ((1 << bitLength) - 1) << bitOffset\<close>, where \<open>b\<close> is the byte \<open>oldByte\<close> at
  that address when the read succeeds and 0 when it fails. The bits of the field are
  the low bits of the value; every bit written outside the mask is the bit of \<open>b\<close>,
  so of \<open>oldByte\<close> when the read succeeds; and when the read fails the write returns
  \<open>TransportError\<close>.
\<close>

theorem rmw_preserves_sibling_bits:
  assumes "spi_target w = Some h" "unat register_id < length regs"
    and "regs ! unat register_id = r" "\<not> rdon r"
    and "unat (offs r) + unat (leng r) \<le> 8" "\<not> (leng r = 8 \<and> offs r = 0)"
    and "oldByte = regfile w (FPGA_SPI_MUX_FPGA_REG, addr r)"
    and "buf0 = (if faulty w (length (calls w)) then 0 else oldByte)"
    and "msk = ucast (push_bit (unat (offs r)) (push_bit (unat (leng r)) (1 :: s32) - 1))"
    and "newByte = (buf0 AND NOT msk) OR (ucast (push_bit (unat (offs r)) reg_value) AND msk)"
  shows "calls (snd (lgw_fpga_reg_w regs w register_id reg_value))
           = calls w @ [SpiR (Some h) FPGA_SPI_MUX_FPGA_REG (addr r),
                        SpiW (Some h) FPGA_SPI_MUX_FPGA_REG (addr r) newByte]
       \<and> (\<forall>n. \<not> bit msk n \<longrightarrow> bit newByte n = bit buf0 n)
       \<and> (\<forall>n < unat (leng r). bit newByte (unat (offs r) + n) = bit reg_value n)
       \<and> (\<not> faulty w (length (calls w)) \<longrightarrow>
            (\<forall>n. \<not> bit msk n \<longrightarrow> bit newByte n = bit oldByte n))
       \<and> (faulty w (length (calls w)) \<longrightarrow>
            fst (lgw_fpga_reg_w regs w register_id reg_value) = Error TransportError)"
proof -
  have m: "msk = push_bit (unat (offs r)) (mask (unat (leng r)))"
    unfolding assms(9) by (simp add: rmw_mask)
  have nb: "newByte
      = (NOT msk AND buf0) OR (msk AND ucast (push_bit (unat (offs r)) reg_value))"
    unfolding assms(10) by (simp add: ac_simps)
  have log: "calls (snd (lgw_fpga_reg_w regs w register_id reg_value))
           = calls w @ [SpiR (Some h) FPGA_SPI_MUX_FPGA_REG (addr r),
                        SpiW (Some h) FPGA_SPI_MUX_FPGA_REG (addr r) newByte]"
    using assms(1-8) unfolding nb m
    by (auto simp add: lgw_fpga_reg_w_def lgw_fpga_spi_w_def lgw_fpga_spi_r_def logged_def
        spi_fails_def Let_def rmw_mask rmw_new_data)
  have err: "fst (lgw_fpga_reg_w regs w register_id reg_value) = Error TransportError"
    if "faulty w (length (calls w))"
    using assms(1-6) that
    by (auto simp add: lgw_fpga_reg_w_def lgw_fpga_spi_w_def lgw_fpga_spi_r_def logged_def
        spi_fails_def spi_stat_result_def LGW_SPI_SUCCESS_def LGW_SPI_ERROR_def Let_def)
  have frame: "\<not> bit msk n \<Longrightarrow> bit newByte n = bit buf0 n" for n
    unfolding nb by (rule rmw_frame)
  have field: "n < unat (leng r) \<Longrightarrow> bit newByte (unat (offs r) + n) = bit reg_value n" for n
    using rmw_field [OF assms(5), of n buf0 reg_value] unfolding nb m
    by (simp add: bit_simps)
  have ok: "\<not> faulty w (length (calls w)) \<Longrightarrow> buf0 = oldByte"
    unfolding assms(8) by simp
  show ?thesis
    using log frame field err ok by blast
qed

theorem rmw_preserves_sibling_bits_witness:
  "spi_target fe_world = Some 0 \<and> unat (0 :: u16) < length fpga_regs
   \<and> \<not> rdon (fpga_regs ! unat (0 :: u16))
   \<and> unat (offs (fpga_regs ! unat (0 :: u16))) + unat (leng (fpga_regs ! unat (0 :: u16))) \<le> 8
   \<and> leng (fpga_regs ! unat (0 :: u16)) \<noteq> 8
   \<and> \<not> faulty fe_world (length (calls fe_world))
   \<and> regfile fe_world (FPGA_SPI_MUX_FPGA_REG, 0) = 0xFE
   \<and> calls (snd (lgw_fpga_reg_w fpga_regs fe_world 0 1))
       = [SpiR (Some 0) FPGA_SPI_MUX_FPGA_REG 0, SpiW (Some 0) FPGA_SPI_MUX_FPGA_REG 0 0xFF]
   \<and> faulty flaky_world (length (calls flaky_world))
   \<and> calls (snd (lgw_fpga_reg_w fpga_regs flaky_world 0 1))
       = [SpiR (Some 0) FPGA_SPI_MUX_FPGA_REG 0, SpiW (Some 0) FPGA_SPI_MUX_FPGA_REG 0 0x01]"
proof -
  let ?r = "mk_reg (- 1) 0 0 False 1 False 0"
  have h: "spi_target fe_world = Some 0" "unat (0 :: u16) < length fpga_regs"
    "fpga_regs ! unat (0 :: u16) = ?r" "\<not> rdon ?r"
    "unat (offs ?r) + unat (leng ?r) \<le> 8" "\<not> (leng ?r = 8 \<and> offs ?r = 0)"
    "0xFE = regfile fe_world (FPGA_SPI_MUX_FPGA_REG, addr ?r)"
    "0xFE = (if faulty fe_world (length (calls fe_world)) then 0 else (0xFE :: u8))"
    "(0x01 :: u8) = ucast (push_bit (unat (offs ?r)) (push_bit (unat (leng ?r)) (1 :: s32) - 1))"
    "(0xFF :: u8) = (0xFE AND NOT 0x01) OR (ucast (push_bit (unat (offs ?r)) (1 :: s32)) AND 0x01)"
    by (simp_all add: fe_world_def table_defs)
  have i: "spi_target flaky_world = Some 0" "unat (0 :: u16) < length fpga_regs"
    "fpga_regs ! unat (0 :: u16) = ?r" "\<not> rdon ?r"
    "unat (offs ?r) + unat (leng ?r) \<le> 8" "\<not> (leng ?r = 8 \<and> offs ?r = 0)"
    "0xFE = regfile flaky_world (FPGA_SPI_MUX_FPGA_REG, addr ?r)"
    "0 = (if faulty flaky_world (length (calls flaky_world)) then 0 else (0xFE :: u8))"
    "(0x01 :: u8) = ucast (push_bit (unat (offs ?r)) (push_bit (unat (leng ?r)) (1 :: s32) - 1))"
    "(0x01 :: u8) = (0 AND NOT 0x01) OR (ucast (push_bit (unat (offs ?r)) (1 :: s32)) AND 0x01)"
    by (simp_all add: flaky_world_def table_defs)
  have c: "calls (snd (lgw_fpga_reg_w fpga_regs fe_world 0 1))
       = calls fe_world @ [SpiR (Some 0) FPGA_SPI_MUX_FPGA_REG (addr ?r),
                           SpiW (Some 0) FPGA_SPI_MUX_FPGA_REG (addr ?r) 0xFF]"
    using rmw_preserves_sibling_bits [OF h] by (rule conjunct1)
  have d: "calls (snd (lgw_fpga_reg_w fpga_regs flaky_world 0 1))
       = calls flaky_world @ [SpiR (Some 0) FPGA_SPI_MUX_FPGA_REG (addr ?r),
                              SpiW (Some 0) FPGA_SPI_MUX_FPGA_REG (addr ?r) 0x01]"
    using rmw_preserves_sibling_bits [OF i] by (rule conjunct1)
  have e: "spi_target fe_world = Some 0" "\<not> faulty fe_world (length (calls fe_world))"
    "regfile fe_world (FPGA_SPI_MUX_FPGA_REG, 0) = 0xFE" "calls fe_world = []"
    "faulty flaky_world (length (calls flaky_world))" "calls flaky_world = []"
    by (simp_all add: fe_world_def flaky_world_def)
  show ?thesis
    using c d e by (simp add: table_defs)
qed

section \<open>Signed fields\<close>

text \<open>
  Claim C4: for every signed descriptor of a valid geometry, of \<open>L\<close> bits with \<open>L\<close>
  at least 1, on a connected device whose transport works, a read succeeds and
  returns the field of the stored word sign-extended from its bit \<open>L - 1\<close>, which is
  what left-aligning the field and shifting it back arithmetically computes; the
  value lies between \<open>- 2 ^ (L - 1)\<close> and \<open>2 ^ (L - 1) - 1\<close>. The instance after it
  reads a signed 4-bit field: the stored pattern 1000 reads as -8 and the stored
  pattern 0111 reads as 7.
\<close>

theorem signed_read_range:
  assumes "spi_target w = Some h" "unat register_id < length regs"
    and "regs ! unat register_id = r" "sign r"
    and "L = unat (leng r)" "1 \<le> L"
    and "unat (offs r) + L \<le> 8 \<or> offs r = 0 \<and> L \<le> 32"
    and "\<not> faulty w (length (calls w))"
    and "v = signed_take_bit (L - 1) (drop_bit (unat (offs r)) (stored_word (regfile w) r))"
  shows "fst (lgw_fpga_reg_r regs w register_id (Some x)) = Success
       \<and> fst (snd (lgw_fpga_reg_r regs w register_id (Some x))) = Some v
       \<and> - (2 ^ (L - 1)) \<le> sint v \<and> sint v \<le> 2 ^ (L - 1) - 1"
proof -
  have L32: "L \<le> 32"
    using assms(7) by auto
  have range: "- (2 ^ (L - 1)) \<le> sint v \<and> sint v \<le> 2 ^ (L - 1) - 1"
    unfolding assms(9) using assms(6) L32 by (rule signed_field_range)
  have rd: "lgw_fpga_reg_r regs w register_id (Some x)
      = (Success, Some v, logged w (if unat (offs r) + L \<le> 8
           then SpiR (Some h) FPGA_SPI_MUX_FPGA_REG (addr r)
           else SpiRB (Some h) FPGA_SPI_MUX_FPGA_REG (addr r) ((L + 7) div 8)))"
  proof (cases "unat (offs r) + L \<le> 8")
    case True
    then show ?thesis
      using reg_r_sub [OF assms(1-3), of x] assms(4-6,8,9)
      by (simp add: stored_word_def ucast_drop_byte)
  next
    case False
    then have g: "offs r = 0" "\<not> unat (leng r) \<le> 8" "unat (leng r) \<le> 32"
      using assms(5,7) by auto
    show ?thesis
      using reg_r_multi [OF assms(1-3) g assms(8) refl, of x] assms(4,5,9) False g
      by (simp add: stored_word_def)
  qed
  show ?thesis
    using rd range by simp
qed

theorem signed_read_range_witness:
  "spi_target minus8_world = Some 0 \<and> unat (0 :: u16) < length demo_regs
   \<and> sign (demo_regs ! unat (0 :: u16)) \<and> unat (leng (demo_regs ! unat (0 :: u16))) = 4
   \<and> unat (offs (demo_regs ! unat (0 :: u16))) + 4 \<le> 8
   \<and> \<not> faulty minus8_world (length (calls minus8_world))
   \<and> drop_bit 2 (regfile minus8_world (FPGA_SPI_MUX_FPGA_REG, 10)) = 8
   \<and> fst (snd (lgw_fpga_reg_r demo_regs minus8_world 0 (Some 0))) = Some (- 8)
   \<and> sint (- 8 :: s32) = - 8
   \<and> drop_bit 2 (regfile plus7_world (FPGA_SPI_MUX_FPGA_REG, 10)) = 7
   \<and> fst (snd (lgw_fpga_reg_r demo_regs plus7_world 0 (Some 0))) = Some 7"
proof -
  let ?r = "mk_reg (- 1) 10 2 True 4 False 0"
  have h: "spi_target minus8_world = Some 0" "unat (0 :: u16) < length demo_regs"
    "demo_regs ! unat (0 :: u16) = ?r" "sign ?r"
    "4 = unat (leng ?r)" "1 \<le> (4 :: nat)"
    "unat (offs ?r) + 4 \<le> 8 \<or> offs ?r = 0 \<and> (4 :: nat) \<le> 32"
    "\<not> faulty minus8_world (length (calls minus8_world))"
    "(- 8 :: s32) = signed_take_bit (4 - 1)
        (drop_bit (unat (offs ?r)) (stored_word (regfile minus8_world) ?r))"
    by (simp_all add: minus8_world_def demo_defs stored_word_def)
  have i: "spi_target plus7_world = Some 0" "unat (0 :: u16) < length demo_regs"
    "demo_regs ! unat (0 :: u16) = ?r" "sign ?r"
    "4 = unat (leng ?r)" "1 \<le> (4 :: nat)"
    "unat (offs ?r) + 4 \<le> 8 \<or> offs ?r = 0 \<and> (4 :: nat) \<le> 32"
    "\<not> faulty plus7_world (length (calls plus7_world))"
    "(7 :: s32) = signed_take_bit (4 - 1)
        (drop_bit (unat (offs ?r)) (stored_word (regfile plus7_world) ?r))"
    by (simp_all add: plus7_world_def demo_defs stored_word_def)
  have a: "fst (snd (lgw_fpga_reg_r demo_regs minus8_world 0 (Some 0))) = Some (- 8)"
    using signed_read_range [OF h, of 0] by simp
  have b: "fst (snd (lgw_fpga_reg_r demo_regs plus7_world 0 (Some 0))) = Some 7"
    using signed_read_range [OF i, of 0] by simp
  show ?thesis
    using a b by (simp add: minus8_world_def plus7_world_def demo_defs)
qed

section \<open>Connection gating and access control\<close>

text \<open>
  Claim C5, as stated, fails: the test of the register identifier comes before the
  test of the connection. On the source's own table, while disconnected, identifier
  10 is rejected as out of range, by write and by read, and not as unconnected.
\<close>

theorem disconnected_range_check_first:
  "spi_target idle_world = None
   \<and> lgw_fpga_reg_w fpga_regs idle_world 10 0 = (Error InvalidRegisterId, idle_world)
   \<and> lgw_fpga_reg_r fpga_regs idle_world 10 (Some 0)
       = (Error InvalidRegisterId, Some 0, idle_world)
   \<and> Error InvalidRegisterId \<noteq> Error NotConnected"
  by (simp add: lgw_fpga_reg_w_def lgw_fpga_reg_r_def fpga_regs_def idle_world_def)

text \<open>
  Claim C5, amended: while disconnected, for every register identifier and every
  value, a write and a read fail and leave the whole world as it was, so the
  transport is not invoked and the caller's cell keeps its value; the failure is
  \<open>NotConnected\<close> for an identifier of the table and \<open>InvalidRegisterId\<close> for one
  beyond it, since the range of the identifier is tested first.
\<close>

theorem disconnected_gating:
  assumes "spi_target w = None"
  shows "lgw_fpga_reg_w regs w register_id reg_value
           = (Error (if unat register_id \<ge> length regs then InvalidRegisterId else NotConnected), w)
       \<and> lgw_fpga_reg_r regs w register_id (Some x)
           = (Error (if unat register_id \<ge> length regs then InvalidRegisterId else NotConnected),
              Some x, w)"
  using assms by (simp add: lgw_fpga_reg_w_def lgw_fpga_reg_r_def)

theorem disconnected_gating_witness:
  "spi_target idle_world = None
   \<and> lgw_fpga_reg_w fpga_regs idle_world 3 7 = (Error NotConnected, idle_world)
   \<and> lgw_fpga_reg_r fpga_regs idle_world 3 (Some 42) = (Error NotConnected, Some 42, idle_world)"
proof -
  have h: "spi_target idle_world = None"
    by (simp add: idle_world_def)
  show ?thesis
    using h disconnected_gating [OF h, of fpga_regs 3 7 42] by (simp add: fpga_regs_def)
qed

text \<open>
  Claim C6, as stated, fails for a burst of no bytes: the length of the burst is
  tested before the descriptor is looked at, so on the read-only VERSION register
  of a connected device the failure is \<open>EmptyBuffer\<close>.
\<close>

theorem empty_burst_checked_before_read_only:
  "spi_target linked_world \<noteq> None \<and> rdon (fpga_regs ! 1)
   \<and> lgw_fpga_reg_wb fpga_regs linked_world 1 (Some []) 0 = (Error EmptyBuffer, linked_world)
   \<and> Error EmptyBuffer \<noteq> Error ReadOnlyViolation"
  by (simp add: lgw_fpga_reg_wb_def linked_world_def table_defs)

text \<open>
  Claim C6, amended: for every read-only descriptor of the table and every connected
  state, a write of any value and a burst write of a non-empty buffer fail with
  \<open>ReadOnlyViolation\<close>, and a burst write of length zero fails with \<open>EmptyBuffer\<close>; in
  each case the world is left as it was, so no transport call is made.
\<close>

theorem read_only_rejected:
  assumes "spi_target w \<noteq> None" "unat register_id < length regs"
    and "rdon (regs ! unat register_id)" "size_b \<noteq> 0"
  shows "lgw_fpga_reg_w regs w register_id reg_value = (Error ReadOnlyViolation, w)
       \<and> lgw_fpga_reg_wb regs w register_id (Some bytes) size_b = (Error ReadOnlyViolation, w)
       \<and> lgw_fpga_reg_wb regs w register_id (Some bytes) 0 = (Error EmptyBuffer, w)"
  using assms by (simp add: lgw_fpga_reg_w_def lgw_fpga_reg_wb_def Let_def)

theorem read_only_rejected_witness:
  "spi_target linked_world \<noteq> None \<and> unat (1 :: u16) < length fpga_regs
   \<and> rdon (fpga_regs ! unat (1 :: u16)) \<and> (2 :: u16) \<noteq> 0
   \<and> lgw_fpga_reg_w fpga_regs linked_world 1 7 = (Error ReadOnlyViolation, linked_world)
   \<and> lgw_fpga_reg_wb fpga_regs linked_world 1 (Some [1, 2]) 2
       = (Error ReadOnlyViolation, linked_world)
   \<and> calls linked_world = []"
proof -
  have h: "spi_target linked_world \<noteq> None" "unat (1 :: u16) < length fpga_regs"
    "rdon (fpga_regs ! unat (1 :: u16))" "(2 :: u16) \<noteq> 0"
    by (simp_all add: linked_world_def table_defs)
  show ?thesis
    using h read_only_rejected [OF h, of 7 "[1, 2]"] by (simp add: linked_world_def)
qed

section \<open>The handshake of connect\<close>

text \<open>
  Claim C7, as stated, fails in its last part: a device that answers 0 to the
  version read is reported absent and one that answers 5 is reported as a version
  mismatch, yet the caller receives the same code for both.
\<close>

theorem handshake_failures_share_one_code:
  "fst (lgw_fpga_connect fpga_regs idle_world) = Error DeviceAbsent
   \<and> fst (lgw_fpga_connect fpga_regs stranger_world) = Error VersionMismatch
   \<and> ret_code (fst (lgw_fpga_connect fpga_regs idle_world))
       = ret_code (fst (lgw_fpga_connect fpga_regs stranger_world))"
  by (simp add: lgw_fpga_connect_def idle_world_def stranger_world_def spi_defs table_defs
      FPGA_SPI_MUX_FPGA_REG_def Let_def)

text \<open>
  Claim C7, amended: when the transport opens and the version register is read,
  connect fails as \<open>DeviceAbsent\<close> when the byte is 0x00 or 0xFF, as \<open>VersionMismatch\<close>
  when the byte is neither and differs from the default value of the version
  descriptor, and succeeds otherwise; every error kind of the layer reaches the
  caller as the one code \<^verbatim>\<open>LGW_REG_ERROR\<close>, which tells a failure from a success and
  not one failure from another. Here \<open>n\<close> is the number of the open call, after the
  close that connect issues when a handle is already held.
\<close>

theorem connect_handshake:
  assumes "n = length (calls w) + (if spi_target w = None then 0 else 1)"
    and "\<not> faulty w n"
    and "\<not> faulty w (Suc n)"
    and "b = regfile w (FPGA_SPI_MUX_FPGA_REG, addr (regs ! LGW_FPGA_VERSION))"
  shows "fst (lgw_fpga_connect regs w)
           = (if b = 0 \<or> b = 255 then Error DeviceAbsent
              else if uint b \<noteq> sint (dflt (regs ! LGW_FPGA_VERSION)) then Error VersionMismatch
              else Success)
       \<and> ret_code (Error e) = LGW_REG_ERROR
       \<and> ret_code Success \<noteq> LGW_REG_ERROR"
  using assms
  by (cases "spi_target w")
    (simp_all add: lgw_fpga_connect_def spi_defs Let_def LGW_REG_ERROR_def LGW_REG_SUCCESS_def)

theorem connect_handshake_witness:
  "0 = length (calls stranger_world) + (if spi_target stranger_world = None then 0 else 1)
   \<and> \<not> faulty stranger_world 0
   \<and> \<not> faulty stranger_world (Suc 0)
   \<and> regfile stranger_world (FPGA_SPI_MUX_FPGA_REG, addr (fpga_regs ! LGW_FPGA_VERSION)) = 5
   \<and> fst (lgw_fpga_connect fpga_regs stranger_world) = Error VersionMismatch
   \<and> fst (lgw_fpga_connect fpga_regs idle_world) = Error DeviceAbsent
   \<and> ret_code (Error VersionMismatch) = LGW_REG_ERROR"
proof -
  have h: "0 = length (calls stranger_world) + (if spi_target stranger_world = None then 0 else 1)"
    "\<not> faulty stranger_world 0"
    "\<not> faulty stranger_world (Suc 0)"
    "5 = regfile stranger_world (FPGA_SPI_MUX_FPGA_REG, addr (fpga_regs ! LGW_FPGA_VERSION))"
    by (simp_all add: stranger_world_def)
  have i: "0 = length (calls idle_world) + (if spi_target idle_world = None then 0 else 1)"
    "\<not> faulty idle_world 0"
    "\<not> faulty idle_world (Suc 0)"
    "0 = regfile idle_world (FPGA_SPI_MUX_FPGA_REG, addr (fpga_regs ! LGW_FPGA_VERSION))"
    by (simp_all add: idle_world_def)
  show ?thesis
    using h connect_handshake [OF h, of VersionMismatch] connect_handshake [OF i, of DeviceAbsent]
    by (simp add: table_defs)
qed

text \<open>
  Claim C8 does not hold of the code. From the disconnected state, over a device
  that answers 0 to the version read, connect returns the \<open>DeviceAbsent\<close> failure and
  yet leaves \<^verbatim>\<open>spi_target\<close> holding the handle it has just opened: the returns of the
  handshake neither close the transport nor reset the pointer. The read and the
  write of register 3 that follow are then not refused; they reach the transport
  and succeed.
\<close>

theorem failed_handshake_leaves_handle_open:
  "spi_target idle_world = None
   \<and> fst (lgw_fpga_connect fpga_regs idle_world) = Error DeviceAbsent
   \<and> spi_target (snd (lgw_fpga_connect fpga_regs idle_world)) = Some 0
   \<and> fst (lgw_fpga_reg_r fpga_regs (snd (lgw_fpga_connect fpga_regs idle_world)) 3 (Some 42))
       = Success
   \<and> fst (lgw_fpga_reg_w fpga_regs (snd (lgw_fpga_connect fpga_regs idle_world)) 3 7)
       = Success"
  by (simp add: lgw_fpga_connect_def lgw_fpga_reg_r_def lgw_fpga_reg_w_def idle_world_def
      spi_defs table_defs FPGA_SPI_MUX_FPGA_REG_def Let_def)

section \<open>A read whose transport call fails\<close>

text \<open>
  Claim C9, as stated, fails: on a connected device whose transport read fails, the
  read of register 3 returns \<open>TransportError\<close> and the caller's cell, which held 42,
  holds 0 afterwards.
\<close>

theorem failed_read_clobbers_output:
  "spi_target broken_world = Some 0
   \<and> lgw_fpga_reg_r fpga_regs broken_world 3 (Some 42)
       = (Error TransportError, Some 0,
          logged broken_world (SpiR (Some 0) FPGA_SPI_MUX_FPGA_REG 3))
   \<and> Some (0 :: s32) \<noteq> Some 42"
  by (simp add: lgw_fpga_reg_r_def broken_world_def spi_defs table_defs Let_def)

text \<open>
  Claim C9, amended: when the transport call of a read fails, the read returns
  \<open>TransportError\<close>, and the caller's cell has been written all the same: the value is
  decoded from the local buffer before the status is tested, and it is 0 when the
  failed call has stored nothing into that zero-initialised buffer. This holds for
  every descriptor of a supported geometry, signed or unsigned.
\<close>

theorem failed_read_writes_output:
  assumes "spi_target w = Some h" "unat register_id < length regs"
    and "r = regs ! unat register_id"
    and "unat (offs r) + unat (leng r) \<le> 8 \<or> offs r = 0 \<and> unat (leng r) \<le> 32"
    and "faulty w (length (calls w))"
  shows "fst (lgw_fpga_reg_r regs w register_id (Some x)) = Error TransportError
       \<and> fst (snd (lgw_fpga_reg_r regs w register_id (Some x))) = Some 0"
proof (cases "unat (offs r) + unat (leng r) \<le> 8")
  case True
  then show ?thesis
    using assms by (simp add: lgw_fpga_reg_r_def spi_defs Let_def)
next
  case False
  then have g: "offs r = 0" "unat (leng r) \<le> 32" "\<not> unat (leng r) \<le> 8"
    using assms(4) by auto
  note leng_word_bounds [OF g(3) g(2)]
  moreover note size_byte_cases [OF g(3) g(2)]
  ultimately show ?thesis
    using assms False g
    by (auto simp add: lgw_fpga_reg_r_def spi_defs Let_def r_loop_zero)
qed

theorem failed_read_writes_output_witness:
  "spi_target broken_world = Some 0 \<and> unat (6 :: u16) < length fpga_regs
   \<and> offs (fpga_regs ! unat (6 :: u16)) = 0 \<and> unat (leng (fpga_regs ! unat (6 :: u16))) \<le> 32
   \<and> faulty broken_world (length (calls broken_world))
   \<and> fst (lgw_fpga_reg_r fpga_regs broken_world 6 (Some 42)) = Error TransportError
   \<and> fst (snd (lgw_fpga_reg_r fpga_regs broken_world 6 (Some 42))) = Some 0"
proof -
  have h: "spi_target broken_world = Some 0" "unat (6 :: u16) < length fpga_regs"
    "fpga_regs ! unat (6 :: u16) = fpga_regs ! unat (6 :: u16)"
    "unat (offs (fpga_regs ! unat (6 :: u16))) + unat (leng (fpga_regs ! unat (6 :: u16))) \<le> 8
     \<or> offs (fpga_regs ! unat (6 :: u16)) = 0 \<and> unat (leng (fpga_regs ! unat (6 :: u16))) \<le> 32"
    "faulty broken_world (length (calls broken_world))"
    by (simp_all add: broken_world_def table_defs)
  show ?thesis
    using h failed_read_writes_output [OF h, of 42] by (simp add: table_defs)
qed

section \<open>The SX1272 passthrough tests no connection state\<close>

text \<open>
  Claim C10: the two passthrough operations test no connection state. In every
  world, connected or not, each makes exactly one transport call, on the SX1272
  mux, with whatever \<^verbatim>\<open>spi_target\<close> holds (the null handle when disconnected), and
  returns the status of that call: there is no \<open>NotConnected\<close> return in them.
\<close>

theorem sx1272_passthrough_ungated:
  "calls (snd (lgw_sx1272_reg_w w address reg_value))
     = calls w @ [SpiW (spi_target w) FPGA_SPI_MUX_SX1272 address reg_value]
   \<and> fst (lgw_sx1272_reg_w w address reg_value)
     = (if spi_fails w (spi_target w) then LGW_SPI_ERROR else LGW_SPI_SUCCESS)
   \<and> calls (snd (snd (lgw_sx1272_reg_r w address)))
     = calls w @ [SpiR (spi_target w) FPGA_SPI_MUX_SX1272 address]
   \<and> fst (lgw_sx1272_reg_r w address)
     = (if spi_fails w (spi_target w) then LGW_SPI_ERROR else LGW_SPI_SUCCESS)"
  by (simp add: lgw_sx1272_reg_w_def lgw_sx1272_reg_r_def lgw_fpga_spi_w_def
      lgw_fpga_spi_r_def logged_def)

end
